theory Spec2Isabelle
  imports Main "HOL-Library.Word"
begin

section \<open>The Symbol Validation Manager of runtime/compiler/runtime/SymbolValidationManager.hpp\<close>

text \<open>
  The header declares the validation records (one struct per kind), their order
  (\<open>isLessThan\<close>, \<open>isEqual\<close>), and the manager with its inline members
  (\<open>isAlreadyValidated\<close>, \<open>enterHeuristicRegion\<close>, \<open>exitHeuristicRegion\<close>,
  \<open>inHeuristicRegion\<close>, \<open>shouldNotDefineSymbol\<close>). The members that the header only
  declares are modelled from the specification and marked so.
\<close>

subsection \<open>Symbols and record kinds\<close>

text \<open>
  \<open>TR_OpaqueClassBlock *\<close>, \<open>TR_OpaqueMethodBlock *\<close> and \<open>void *\<close> are opaque handles
  compared by identity: an address, with \<open>NULL\<close> the address 0.
\<close>

type_synonym address = nat

definition NULL :: address where
  "NULL = 0"

type_synonym uint16_t = "16 word"
type_synonym uint32_t = "32 word"
type_synonym int32_t = "32 word"

text \<open>
  The enumerators of \<open>TR_ExternalRelocationTargetKind\<close> that the record constructors of
  the header pass to \<open>SymbolValidationRecord(kind)\<close>. The enumeration itself is declared
  in another header, so the integer value of an enumerator is a parameter \<open>tag\<close> of
  everything that compares kinds.
\<close>

datatype TR_ExternalRelocationTargetKind =
    TR_ValidateClassByName
  | TR_ValidateProfiledClass
  | TR_ValidateClassFromCP
  | TR_ValidateDefiningClassFromCP
  | TR_ValidateStaticClassFromCP
  | TR_ValidateClassFromMethod
  | TR_ValidateComponentClassFromArrayClass
  | TR_ValidateArrayClassFromComponentClass
  | TR_ValidateSuperClassFromClass
  | TR_ValidateClassInstanceOfClass
  | TR_ValidateSystemClassByName
  | TR_ValidateClassFromITableIndexCP
  | TR_ValidateDeclaringClassFromFieldOrStatic
  | TR_ValidateClassClass
  | TR_ValidateConcreteSubClassFromClass
  | TR_ValidateClassChain
  | TR_ValidateMethodFromClass
  | TR_ValidateStaticMethodFromCP
  | TR_ValidateSpecialMethodFromCP
  | TR_ValidateVirtualMethodFromCP
  | TR_ValidateVirtualMethodFromOffset
  | TR_ValidateInterfaceMethodFromCP
  | TR_ValidateMethodFromClassAndSig
  | TR_ValidateStackWalkerMaySkipFramesRecord
  | TR_ValidateClassInfoIsInitialized
  | TR_ValidateMethodFromSingleImplementer
  | TR_ValidateMethodFromSingleInterfaceImplementer
  | TR_ValidateMethodFromSingleAbstractImplementer
  | TR_ValidateImproperInterfaceMethodFromCP

text \<open>\<open>TR_YesNoMaybe\<close> is declared elsewhere; its three values in their usual order.\<close>

datatype TR_YesNoMaybe = TR_no | TR_yes | TR_maybe

text \<open>
  Modelled from the spec: \<open>TR::SymbolType\<close>, declared elsewhere. A symbol is exactly one
  of two categories, a type symbol or a procedure symbol.
\<close>

datatype SymbolType = typeClass | typeMethod

subsection \<open>Validation records\<close>

text \<open>
  One constructor per record struct, with the struct's fields in their declared order and
  with their declared types.
\<close>

datatype SymbolValidationRecord =
    ClassByNameRecord address address
  | ProfiledClassRecord address address
  | ClassFromCPRecord address address uint32_t
  | DefiningClassFromCPRecord address address uint32_t bool
  | StaticClassFromCPRecord address address uint32_t
  | ClassFromMethodRecord address address
  | ComponentClassFromArrayClassRecord address address
  | ArrayClassFromComponentClassRecord address address
  | SuperClassFromClassRecord address address
  | ClassInstanceOfClassRecord address address bool bool bool
  | SystemClassByNameRecord address
  | ClassFromITableIndexCPRecord address address int32_t
  | DeclaringClassFromFieldOrStaticRecord address address uint32_t
  | ClassClassRecord address address
  | ConcreteSubClassFromClassRecord address address
  | ClassChainRecord address address
  | MethodFromClassRecord address address uint32_t
  | StaticMethodFromCPRecord address address int32_t
  | SpecialMethodFromCPRecord address address int32_t
  | VirtualMethodFromCPRecord address address int32_t
  | VirtualMethodFromOffsetRecord address address int32_t bool
  | InterfaceMethodFromCPRecord address address address int32_t
  | MethodFromClassAndSigRecord address address address
  | StackWalkerMaySkipFramesRecord address address bool
  | ClassInfoIsInitialized address bool
  | MethodFromSingleImplementer address address int32_t address TR_YesNoMaybe
  | MethodFromSingleInterfaceImplementer address address int32_t address
  | MethodFromSingleAbstractImplementer address address int32_t address
  | ImproperInterfaceMethodFromCPRecord address address int32_t

text \<open>The field \<open>_kind\<close>, as each constructor initialises it.\<close>

fun kind :: "SymbolValidationRecord \<Rightarrow> TR_ExternalRelocationTargetKind" where
  "kind (ClassByNameRecord c b) = TR_ValidateClassByName"
| "kind (ProfiledClassRecord c ch) = TR_ValidateProfiledClass"
| "kind (ClassFromCPRecord c b i) = TR_ValidateClassFromCP"
| "kind (DefiningClassFromCPRecord c b i s) = TR_ValidateDefiningClassFromCP"
| "kind (StaticClassFromCPRecord c b i) = TR_ValidateStaticClassFromCP"
| "kind (ClassFromMethodRecord c m) = TR_ValidateClassFromMethod"
| "kind (ComponentClassFromArrayClassRecord c a) = TR_ValidateComponentClassFromArrayClass"
| "kind (ArrayClassFromComponentClassRecord a c) = TR_ValidateArrayClassFromComponentClass"
| "kind (SuperClassFromClassRecord s c) = TR_ValidateSuperClassFromClass"
| "kind (ClassInstanceOfClassRecord c1 c2 f1 f2 io) = TR_ValidateClassInstanceOfClass"
| "kind (SystemClassByNameRecord c) = TR_ValidateSystemClassByName"
| "kind (ClassFromITableIndexCPRecord c b j) = TR_ValidateClassFromITableIndexCP"
| "kind (DeclaringClassFromFieldOrStaticRecord c b i) = TR_ValidateDeclaringClassFromFieldOrStatic"
| "kind (ClassClassRecord cc oc) = TR_ValidateClassClass"
| "kind (ConcreteSubClassFromClassRecord c s) = TR_ValidateConcreteSubClassFromClass"
| "kind (ClassChainRecord c ch) = TR_ValidateClassChain"
| "kind (MethodFromClassRecord m b i) = TR_ValidateMethodFromClass"
| "kind (StaticMethodFromCPRecord m b j) = TR_ValidateStaticMethodFromCP"
| "kind (SpecialMethodFromCPRecord m b j) = TR_ValidateSpecialMethodFromCP"
| "kind (VirtualMethodFromCPRecord m b j) = TR_ValidateVirtualMethodFromCP"
| "kind (VirtualMethodFromOffsetRecord m b j g) = TR_ValidateVirtualMethodFromOffset"
| "kind (InterfaceMethodFromCPRecord m b l j) = TR_ValidateInterfaceMethodFromCP"
| "kind (MethodFromClassAndSigRecord m mc b) = TR_ValidateMethodFromClassAndSig"
| "kind (StackWalkerMaySkipFramesRecord m mc s) = TR_ValidateStackWalkerMaySkipFramesRecord"
| "kind (ClassInfoIsInitialized c s) = TR_ValidateClassInfoIsInitialized"
| "kind (MethodFromSingleImplementer m c j cm u) = TR_ValidateMethodFromSingleImplementer"
| "kind (MethodFromSingleInterfaceImplementer m c j cm) = TR_ValidateMethodFromSingleInterfaceImplementer"
| "kind (MethodFromSingleAbstractImplementer m c j cm) = TR_ValidateMethodFromSingleAbstractImplementer"
| "kind (ImproperInterfaceMethodFromCPRecord m b j) = TR_ValidateImproperInterfaceMethodFromCP"

text \<open>
  \<open>isClassValidationRecord\<close> is virtual: \<open>SymbolValidationRecord\<close> returns false,
  \<open>ClassValidationRecord\<close> overrides it to return true, and no record struct overrides it
  again. So it is true exactly for the structs declared
  \<open>: public ClassValidationRecord\<close>.
\<close>

fun isClassValidationRecord :: "SymbolValidationRecord \<Rightarrow> bool" where
  "isClassValidationRecord (ClassByNameRecord c b) = True"
| "isClassValidationRecord (ProfiledClassRecord c ch) = True"
| "isClassValidationRecord (ClassFromCPRecord c b i) = True"
| "isClassValidationRecord (DefiningClassFromCPRecord c b i s) = True"
| "isClassValidationRecord (StaticClassFromCPRecord c b i) = True"
| "isClassValidationRecord (ClassFromMethodRecord c m) = True"
| "isClassValidationRecord (ComponentClassFromArrayClassRecord c a) = True"
| "isClassValidationRecord (ArrayClassFromComponentClassRecord a c) = True"
| "isClassValidationRecord (SuperClassFromClassRecord s c) = True"
| "isClassValidationRecord (ClassInstanceOfClassRecord c1 c2 f1 f2 io) = False"
| "isClassValidationRecord (SystemClassByNameRecord c) = True"
| "isClassValidationRecord (ClassFromITableIndexCPRecord c b j) = True"
| "isClassValidationRecord (DeclaringClassFromFieldOrStaticRecord c b i) = True"
| "isClassValidationRecord (ClassClassRecord cc oc) = True"
| "isClassValidationRecord (ConcreteSubClassFromClassRecord c s) = True"
| "isClassValidationRecord (ClassChainRecord c ch) = False"
| "isClassValidationRecord (MethodFromClassRecord m b i) = False"
| "isClassValidationRecord (StaticMethodFromCPRecord m b j) = False"
| "isClassValidationRecord (SpecialMethodFromCPRecord m b j) = False"
| "isClassValidationRecord (VirtualMethodFromCPRecord m b j) = False"
| "isClassValidationRecord (VirtualMethodFromOffsetRecord m b j g) = False"
| "isClassValidationRecord (InterfaceMethodFromCPRecord m b l j) = False"
| "isClassValidationRecord (MethodFromClassAndSigRecord m mc b) = False"
| "isClassValidationRecord (StackWalkerMaySkipFramesRecord m mc s) = False"
| "isClassValidationRecord (ClassInfoIsInitialized c s) = False"
| "isClassValidationRecord (MethodFromSingleImplementer m c j cm u) = False"
| "isClassValidationRecord (MethodFromSingleInterfaceImplementer m c j cm) = False"
| "isClassValidationRecord (MethodFromSingleAbstractImplementer m c j cm) = False"
| "isClassValidationRecord (ImproperInterfaceMethodFromCPRecord m b j) = False"

text \<open>
  The category of the symbol a record is about: the declared type of the struct's first
  field, \<open>TR_OpaqueClassBlock *\<close> (a type symbol) or \<open>TR_OpaqueMethodBlock *\<close> (a
  procedure symbol).
\<close>

fun subjectType :: "SymbolValidationRecord \<Rightarrow> SymbolType" where
  "subjectType (ClassByNameRecord c b) = typeClass"
| "subjectType (ProfiledClassRecord c ch) = typeClass"
| "subjectType (ClassFromCPRecord c b i) = typeClass"
| "subjectType (DefiningClassFromCPRecord c b i s) = typeClass"
| "subjectType (StaticClassFromCPRecord c b i) = typeClass"
| "subjectType (ClassFromMethodRecord c m) = typeClass"
| "subjectType (ComponentClassFromArrayClassRecord c a) = typeClass"
| "subjectType (ArrayClassFromComponentClassRecord a c) = typeClass"
| "subjectType (SuperClassFromClassRecord s c) = typeClass"
| "subjectType (ClassInstanceOfClassRecord c1 c2 f1 f2 io) = typeClass"
| "subjectType (SystemClassByNameRecord c) = typeClass"
| "subjectType (ClassFromITableIndexCPRecord c b j) = typeClass"
| "subjectType (DeclaringClassFromFieldOrStaticRecord c b i) = typeClass"
| "subjectType (ClassClassRecord cc oc) = typeClass"
| "subjectType (ConcreteSubClassFromClassRecord c s) = typeClass"
| "subjectType (ClassChainRecord c ch) = typeClass"
| "subjectType (MethodFromClassRecord m b i) = typeMethod"
| "subjectType (StaticMethodFromCPRecord m b j) = typeMethod"
| "subjectType (SpecialMethodFromCPRecord m b j) = typeMethod"
| "subjectType (VirtualMethodFromCPRecord m b j) = typeMethod"
| "subjectType (VirtualMethodFromOffsetRecord m b j g) = typeMethod"
| "subjectType (InterfaceMethodFromCPRecord m b l j) = typeMethod"
| "subjectType (MethodFromClassAndSigRecord m mc b) = typeMethod"
| "subjectType (StackWalkerMaySkipFramesRecord m mc s) = typeMethod"
| "subjectType (ClassInfoIsInitialized c s) = typeClass"
| "subjectType (MethodFromSingleImplementer m c j cm u) = typeMethod"
| "subjectType (MethodFromSingleInterfaceImplementer m c j cm) = typeMethod"
| "subjectType (MethodFromSingleAbstractImplementer m c j cm) = typeMethod"
| "subjectType (ImproperInterfaceMethodFromCPRecord m b j) = typeMethod"

subsection \<open>The record order\<close>

text \<open>The sort keys of the field types: each is an injection into the integers.\<close>

definition ptrKey :: "address \<Rightarrow> int" where
  "ptrKey p = int p"

definition u32Key :: "uint32_t \<Rightarrow> int" where
  "u32Key w = uint w"

definition i32Key :: "int32_t \<Rightarrow> int" where
  "i32Key w = sint w"

definition boolKey :: "bool \<Rightarrow> int" where
  "boolKey b = (if b then 1 else 0)"

fun ynmKey :: "TR_YesNoMaybe \<Rightarrow> int" where
  "ynmKey TR_no = 0"
| "ynmKey TR_yes = 1"
| "ynmKey TR_maybe = 2"

text \<open>The kind-specific fields of a record as its sequence of sort keys, in field order.\<close>

fun fieldKeys :: "SymbolValidationRecord \<Rightarrow> int list" where
  "fieldKeys (ClassByNameRecord c b) = [ptrKey c, ptrKey b]"
| "fieldKeys (ProfiledClassRecord c ch) = [ptrKey c, ptrKey ch]"
| "fieldKeys (ClassFromCPRecord c b i) = [ptrKey c, ptrKey b, u32Key i]"
| "fieldKeys (DefiningClassFromCPRecord c b i s) = [ptrKey c, ptrKey b, u32Key i, boolKey s]"
| "fieldKeys (StaticClassFromCPRecord c b i) = [ptrKey c, ptrKey b, u32Key i]"
| "fieldKeys (ClassFromMethodRecord c m) = [ptrKey c, ptrKey m]"
| "fieldKeys (ComponentClassFromArrayClassRecord c a) = [ptrKey c, ptrKey a]"
| "fieldKeys (ArrayClassFromComponentClassRecord a c) = [ptrKey a, ptrKey c]"
| "fieldKeys (SuperClassFromClassRecord s c) = [ptrKey s, ptrKey c]"
| "fieldKeys (ClassInstanceOfClassRecord c1 c2 f1 f2 io) =
     [ptrKey c1, ptrKey c2, boolKey f1, boolKey f2, boolKey io]"
| "fieldKeys (SystemClassByNameRecord c) = [ptrKey c]"
| "fieldKeys (ClassFromITableIndexCPRecord c b j) = [ptrKey c, ptrKey b, i32Key j]"
| "fieldKeys (DeclaringClassFromFieldOrStaticRecord c b i) = [ptrKey c, ptrKey b, u32Key i]"
| "fieldKeys (ClassClassRecord cc oc) = [ptrKey cc, ptrKey oc]"
| "fieldKeys (ConcreteSubClassFromClassRecord c s) = [ptrKey c, ptrKey s]"
| "fieldKeys (ClassChainRecord c ch) = [ptrKey c, ptrKey ch]"
| "fieldKeys (MethodFromClassRecord m b i) = [ptrKey m, ptrKey b, u32Key i]"
| "fieldKeys (StaticMethodFromCPRecord m b j) = [ptrKey m, ptrKey b, i32Key j]"
| "fieldKeys (SpecialMethodFromCPRecord m b j) = [ptrKey m, ptrKey b, i32Key j]"
| "fieldKeys (VirtualMethodFromCPRecord m b j) = [ptrKey m, ptrKey b, i32Key j]"
| "fieldKeys (VirtualMethodFromOffsetRecord m b j g) = [ptrKey m, ptrKey b, i32Key j, boolKey g]"
| "fieldKeys (InterfaceMethodFromCPRecord m b l j) = [ptrKey m, ptrKey b, ptrKey l, i32Key j]"
| "fieldKeys (MethodFromClassAndSigRecord m mc b) = [ptrKey m, ptrKey mc, ptrKey b]"
| "fieldKeys (StackWalkerMaySkipFramesRecord m mc s) = [ptrKey m, ptrKey mc, boolKey s]"
| "fieldKeys (ClassInfoIsInitialized c s) = [ptrKey c, boolKey s]"
| "fieldKeys (MethodFromSingleImplementer m c j cm u) =
     [ptrKey m, ptrKey c, i32Key j, ptrKey cm, ynmKey u]"
| "fieldKeys (MethodFromSingleInterfaceImplementer m c j cm) =
     [ptrKey m, ptrKey c, i32Key j, ptrKey cm]"
| "fieldKeys (MethodFromSingleAbstractImplementer m c j cm) =
     [ptrKey m, ptrKey c, i32Key j, ptrKey cm]"
| "fieldKeys (ImproperInterfaceMethodFromCPRecord m b j) = [ptrKey m, ptrKey b, i32Key j]"

text \<open>Lexicographic comparison of two key sequences: the first differing key decides.\<close>

fun lexLess :: "int list \<Rightarrow> int list \<Rightarrow> bool" where
  "lexLess [] ys = (ys \<noteq> [])"
| "lexLess (x # xs) [] = False"
| "lexLess (x # xs) (y # ys) = (if x < y then True else if y < x then False else lexLess xs ys)"

text \<open>
  Modelled from the spec: the bodies of the \<open>isLessThanWithinKind\<close> overrides, which the
  header only declares. The kind-specific fields are the secondary sort keys and define
  a strict total order within the kind: the fields are compared in order, the first
  differing field deciding. (The override downcasts its argument to the record's own
  struct; it is only ever reached with two records of one kind.)
\<close>

definition isLessThanWithinKind :: "SymbolValidationRecord \<Rightarrow> SymbolValidationRecord \<Rightarrow> bool" where
  "isLessThanWithinKind a b = lexLess (fieldKeys a) (fieldKeys b)"

text \<open>
  \<open>SymbolValidationRecord::isLessThan\<close> and \<open>isEqual\<close>, as the header defines them;
  \<open>tag\<close> gives the integer value of a kind enumerator.
\<close>

definition isLessThan ::
  "(TR_ExternalRelocationTargetKind \<Rightarrow> nat) \<Rightarrow> SymbolValidationRecord \<Rightarrow> SymbolValidationRecord \<Rightarrow> bool" where
  "isLessThan tag a b =
     (if tag (kind a) < tag (kind b) then True
      else if tag (kind a) > tag (kind b) then False
      else isLessThanWithinKind a b)"

definition isEqual ::
  "(TR_ExternalRelocationTargetKind \<Rightarrow> nat) \<Rightarrow> SymbolValidationRecord \<Rightarrow> SymbolValidationRecord \<Rightarrow> bool" where
  "isEqual tag a b = (\<not> isLessThan tag a b \<and> \<not> isLessThan tag b a)"

subsection \<open>The manager\<close>

text \<open>\<open>SymbolValidationManager::Presence\<close> and \<open>SymbolValidationManager::TypedSymbol\<close>.\<close>

datatype Presence = SymRequired | SymOptional

record TypedSymbol =
  symbol :: address
  type :: SymbolType
  hasValue :: bool

text \<open>
  \<open>SVM_ASSERT\<close> and \<open>SVM_ASSERT_NONFATAL\<close> fail the compilation or the load with
  \<open>J9::AOTSymbolValidationManagerFailure\<close>: the one way an operation signals failure.
\<close>

datatype error = AOTSymbolValidationManagerFailure

text \<open>
  The data members of the manager: \<open>_symbolID\<close>, \<open>_heuristicRegion\<close>, the list
  \<open>_symbolValidationRecords\<close>, the ordered set \<open>_alreadyGeneratedRecords\<close> (a
  \<open>std::set\<close> under \<open>LessSymbolValidationRecord\<close>, kept as its ascending sequence), the
  map \<open>_symbolToIdMap\<close>, the vector \<open>_idToSymbolTable\<close> and the set \<open>_seenSymbolsSet\<close>.
\<close>

record SymbolValidationManager =
  symbolID :: uint16_t
  heuristicRegion :: uint32_t
  symbolValidationRecords :: "SymbolValidationRecord list"
  alreadyGeneratedRecords :: "SymbolValidationRecord list"
  symbolToIdMap :: "address \<rightharpoonup> uint16_t"
  idToSymbolTable :: "TypedSymbol list"
  seenSymbolsSet :: "address set"

definition NO_ID :: uint16_t where
  "NO_ID = 0"

definition FIRST_ID :: uint16_t where
  "FIRST_ID = 1"

text \<open>
  Modelled from the spec: the constructor, which the header only declares. Valid IDs
  start at \<open>FIRST_ID\<close>; the counter of heuristic regions starts at zero; the record
  list, the record set and both views of the identity table start empty.
\<close>

definition newManager :: SymbolValidationManager where
  "newManager =
     \<lparr>symbolID = FIRST_ID, heuristicRegion = 0, symbolValidationRecords = [],
      alreadyGeneratedRecords = [], symbolToIdMap = Map.empty, idToSymbolTable = [],
      seenSymbolsSet = {}\<rparr>"

text \<open>The three inline members of the heuristic region, on the 32-bit counter.\<close>

definition enterHeuristicRegion :: "SymbolValidationManager \<Rightarrow> SymbolValidationManager" where
  "enterHeuristicRegion m = m\<lparr>heuristicRegion := heuristicRegion m + 1\<rparr>"

definition exitHeuristicRegion :: "SymbolValidationManager \<Rightarrow> SymbolValidationManager" where
  "exitHeuristicRegion m = m\<lparr>heuristicRegion := heuristicRegion m - 1\<rparr>"

definition inHeuristicRegion :: "SymbolValidationManager \<Rightarrow> bool" where
  "inHeuristicRegion m = (heuristicRegion m > 0)"

text \<open>
  Modelled from the spec: \<open>tryGetIDFromSymbol\<close>, which the header only declares. A pure
  lookup in the symbol-to-ID view that never allocates; \<open>NO_ID\<close> for a symbol never
  added.
\<close>

definition tryGetIDFromSymbol :: "SymbolValidationManager \<Rightarrow> address \<Rightarrow> uint16_t" where
  "tryGetIDFromSymbol m s = (case symbolToIdMap m s of None \<Rightarrow> NO_ID | Some i \<Rightarrow> i)"

text \<open>\<open>isAlreadyValidated\<close> and \<open>shouldNotDefineSymbol\<close>, as the header defines them.\<close>

definition isAlreadyValidated :: "SymbolValidationManager \<Rightarrow> address \<Rightarrow> bool" where
  "isAlreadyValidated m s = (inHeuristicRegion m \<or> tryGetIDFromSymbol m s \<noteq> NO_ID)"

definition shouldNotDefineSymbol :: "SymbolValidationManager \<Rightarrow> address \<Rightarrow> bool" where
  "shouldNotDefineSymbol m s = (s = NULL \<or> inHeuristicRegion m)"

text \<open>
  Modelled from the spec: \<open>getNewSymbolID\<close>, which the header only declares. It
  allocates the next monotonically increasing ID, and an ID is never reused. On a
  16-bit counter that leaves one behaviour when the IDs run out: the resource limit is
  hit and the attempt fails (the header keeps \<open>SVM_ASSERT_NONFATAL\<close> for exceeding
  limits), here once the counter has reached its largest value.
\<close>

definition getNewSymbolID ::
  "SymbolValidationManager \<Rightarrow> error + (uint16_t \<times> SymbolValidationManager)" where
  "getNewSymbolID m =
     (if symbolID m = 0xFFFF then Inl AOTSymbolValidationManagerFailure
      else Inr (symbolID m, m\<lparr>symbolID := symbolID m + 1\<rparr>))"

text \<open>Successive calls of \<open>getNewSymbolID\<close>, with the IDs they return in order.\<close>

fun getNewSymbolIDs ::
  "nat \<Rightarrow> SymbolValidationManager \<Rightarrow> error + (uint16_t list \<times> SymbolValidationManager)" where
  "getNewSymbolIDs 0 m = Inr ([], m)"
| "getNewSymbolIDs (Suc n) m =
     (case getNewSymbolID m of
        Inl e \<Rightarrow> Inl e
      | Inr (i, m1) \<Rightarrow>
          (case getNewSymbolIDs n m1 of
             Inl e \<Rightarrow> Inl e
           | Inr (ids, m2) \<Rightarrow> Inr (i # ids, m2)))"

subsection \<open>The record store\<close>

text \<open>
  Modelled from the spec: \<open>recordExists\<close>, the order-based membership test in the
  ordered set: some element is neither less nor greater than the record.
\<close>

definition recordExists ::
  "(TR_ExternalRelocationTargetKind \<Rightarrow> nat) \<Rightarrow> SymbolValidationManager \<Rightarrow> SymbolValidationRecord \<Rightarrow> bool" where
  "recordExists tag m r = list_ex (\<lambda>e. isEqual tag e r) (alreadyGeneratedRecords m)"

text \<open>
  \<open>std::set::insert\<close> under the comparator: the record goes before the first greater
  element, and is not inserted when an equivalent element is met.
\<close>

fun setInsert ::
  "(TR_ExternalRelocationTargetKind \<Rightarrow> nat) \<Rightarrow> SymbolValidationRecord \<Rightarrow> SymbolValidationRecord list
     \<Rightarrow> SymbolValidationRecord list" where
  "setInsert tag r [] = [r]"
| "setInsert tag r (e # es) =
     (if isLessThan tag r e then r # e # es
      else if isLessThan tag e r then e # setInsert tag r es
      else e # es)"

text \<open>
  Modelled from the spec: \<open>appendNewRecord\<close>. It assumes the record is new, associates
  the symbol with a fresh ID if it has none, and inserts the record into both the
  insertion-ordered list and the ordered set.
\<close>

definition appendNewRecord ::
  "(TR_ExternalRelocationTargetKind \<Rightarrow> nat) \<Rightarrow> SymbolValidationManager \<Rightarrow> address \<Rightarrow> SymbolValidationRecord
     \<Rightarrow> error + SymbolValidationManager" where
  "appendNewRecord tag m s r =
     (case (if tryGetIDFromSymbol m s = NO_ID
            then (case getNewSymbolID m of
                    Inl e \<Rightarrow> Inl e
                  | Inr (i, m1) \<Rightarrow> Inr (m1\<lparr>symbolToIdMap := (symbolToIdMap m1)(s \<mapsto> i)\<rparr>))
            else Inr m) of
        Inl e \<Rightarrow> Inl e
      | Inr m2 \<Rightarrow>
          Inr (m2\<lparr>symbolValidationRecords := symbolValidationRecords m2 @ [r],
                  alreadyGeneratedRecords := setInsert tag r (alreadyGeneratedRecords m2)\<rparr>))"

text \<open>
  Modelled from the spec: \<open>appendRecordIfNew\<close>. It checks existence first; a record
  already present is discarded and nothing changes.
\<close>

definition appendRecordIfNew ::
  "(TR_ExternalRelocationTargetKind \<Rightarrow> nat) \<Rightarrow> SymbolValidationManager \<Rightarrow> address \<Rightarrow> SymbolValidationRecord
     \<Rightarrow> error + SymbolValidationManager" where
  "appendRecordIfNew tag m s r =
     (if recordExists tag m r then Inr m else appendNewRecord tag m s r)"

text \<open>
  Modelled from the spec: \<open>abandonRecord\<close>, which the header only declares. The record
  is discarded and the add operation returns false.
\<close>

definition abandonRecord :: "SymbolValidationManager \<Rightarrow> SymbolValidationRecord \<Rightarrow> bool" where
  "abandonRecord m r = False"

text \<open>
  Modelled from the spec: the policy of the add operations, under the name and the
  signature of \<open>addVanillaRecord\<close> (the header declares it, with \<open>addClassRecord\<close> and
  \<open>addMethodRecord\<close>, and defines none). An add operation builds its record from its
  arguments, which has no effect, and then: it returns false when the symbol is
  \<open>NULL\<close> or the manager is inside a heuristic region, and otherwise appends the record
  if it is new and returns true.
\<close>

definition addVanillaRecord ::
  "(TR_ExternalRelocationTargetKind \<Rightarrow> nat) \<Rightarrow> SymbolValidationManager \<Rightarrow> address \<Rightarrow> SymbolValidationRecord
     \<Rightarrow> error + (bool \<times> SymbolValidationManager)" where
  "addVanillaRecord tag m s r =
     (if shouldNotDefineSymbol m s then Inr (abandonRecord m r, m)
      else (case appendRecordIfNew tag m s r of
              Inl e \<Rightarrow> Inl e
            | Inr m1 \<Rightarrow> Inr (True, m1)))"


text \<open>\<open>appendRecordIfNew\<close> for each of a sequence of records, each with its symbol, in order.\<close>

fun appendRecordsIfNew ::
  "(TR_ExternalRelocationTargetKind \<Rightarrow> nat) \<Rightarrow> SymbolValidationManager
     \<Rightarrow> (address \<times> SymbolValidationRecord) list \<Rightarrow> error + SymbolValidationManager" where
  "appendRecordsIfNew tag m [] = Inr m"
| "appendRecordsIfNew tag m ((s, r) # ps) =
     (case appendRecordIfNew tag m s r of
        Inl e \<Rightarrow> Inl e
      | Inr m1 \<Rightarrow> appendRecordsIfNew tag m1 ps)"

text \<open>
  Modelled from the spec: the records of the array unrolling (\<open>addMultipleArrayRecords\<close>,
  which the header only declares). For a type with \<open>n\<close> array dimensions the manager
  synthesizes \<open>n\<close> chained array-type records, one per dimension, each about the array
  type of the type below it; \<open>arrayClassOf\<close> is the array-type-of query of the runtime.
\<close>

fun arrayRecords ::
  "(address \<Rightarrow> address) \<Rightarrow> address \<Rightarrow> nat \<Rightarrow> (address \<times> SymbolValidationRecord) list" where
  "arrayRecords arrayClassOf component 0 = []"
| "arrayRecords arrayClassOf component (Suc n) =
     (arrayClassOf component,
      ArrayClassFromComponentClassRecord (arrayClassOf component) component)
     # arrayRecords arrayClassOf (arrayClassOf component) n"

text \<open>
  Modelled from the spec: an add operation (\<open>addXRecord\<close>), none of which the header
  defines. The public \<open>add*Record\<close> operations and the helpers behind them
  (\<open>addVanillaRecord\<close>, \<open>addClassRecord\<close>, \<open>addClassRecordWithRomClass\<close>,
  \<open>addMethodRecord\<close>) are the cases of it. From its arguments, and from read-only
  queries of the runtime, an operation has:
  \<^item> \<open>operands\<close>, the symbols its record refers to, which must be already validated
    (\<open>SVM_ASSERT_ALREADY_VALIDATED\<close>): a record refers only to symbols that have an ID,
    and a symbol assumed validated that is not is a logic error;
  \<^item> the symbol \<open>s\<close> and the record \<open>r\<close> it is about, which go through the wrapper
    policy (\<open>addVanillaRecord\<close>);
  \<^item> \<open>extra\<close>, the further records it synthesizes, each with its symbol, appended if
    new after its own: the \<open>arrayRecords\<close> of a type record (\<open>addMultipleArrayRecords\<close>),
    none for an operation that adds one record.
\<close>

definition addXRecord ::
  "(TR_ExternalRelocationTargetKind \<Rightarrow> nat) \<Rightarrow> SymbolValidationManager \<Rightarrow> address list \<Rightarrow> address
     \<Rightarrow> SymbolValidationRecord \<Rightarrow> (address \<times> SymbolValidationRecord) list
     \<Rightarrow> error + (bool \<times> SymbolValidationManager)" where
  "addXRecord tag m operands s r extra =
     (if \<not> list_all (isAlreadyValidated m) operands then Inl AOTSymbolValidationManagerFailure
      else (case addVanillaRecord tag m s r of
              Inl e \<Rightarrow> Inl e
            | Inr (b, m1) \<Rightarrow>
                if b then (case appendRecordsIfNew tag m1 extra of
                             Inl e \<Rightarrow> Inl e
                           | Inr m2 \<Rightarrow> Inr (True, m2))
                else Inr (False, m1)))"


subsection \<open>Lookups during load\<close>

text \<open>
  Modelled from the spec: what it is for an ID to have a bound symbol of a category,
  over the \<open>TypedSymbol\<close> entries of the header. The entry of \<open>_idToSymbolTable\<close>
  exists, has a value, holds a symbol other than \<open>NULL\<close> and is of that category.
\<close>

definition hasBoundSymbol :: "SymbolValidationManager \<Rightarrow> uint16_t \<Rightarrow> SymbolType \<Rightarrow> bool" where
  "hasBoundSymbol m i ty =
     (unat i < length (idToSymbolTable m) \<and>
      hasValue (idToSymbolTable m ! unat i) \<and>
      symbol (idToSymbolTable m ! unat i) \<noteq> NULL \<and>
      type (idToSymbolTable m ! unat i) = ty)"

text \<open>
  Modelled from the spec: \<open>getSymbolFromID\<close>, \<open>getClassFromID\<close> and \<open>getMethodFromID\<close>,
  which the header only declares. With the presence mode \<open>SymRequired\<close> an absent
  symbol signals failure; with \<open>SymOptional\<close> the result is empty (\<open>NULL\<close>), silently.
\<close>

definition getSymbolFromID ::
  "SymbolValidationManager \<Rightarrow> uint16_t \<Rightarrow> SymbolType \<Rightarrow> Presence \<Rightarrow> error + address" where
  "getSymbolFromID m i ty presence =
     (if hasBoundSymbol m i ty then Inr (symbol (idToSymbolTable m ! unat i))
      else (case presence of
              SymRequired \<Rightarrow> Inl AOTSymbolValidationManagerFailure
            | SymOptional \<Rightarrow> Inr NULL))"

definition getClassFromID :: "SymbolValidationManager \<Rightarrow> uint16_t \<Rightarrow> Presence \<Rightarrow> error + address" where
  "getClassFromID m i presence = getSymbolFromID m i typeClass presence"

definition getMethodFromID :: "SymbolValidationManager \<Rightarrow> uint16_t \<Rightarrow> Presence \<Rightarrow> error + address" where
  "getMethodFromID m i presence = getSymbolFromID m i typeMethod presence"

text \<open>
  A numbering of the kind enumerators for the concrete examples below: the position of
  the enumerator in the list above. Every theorem holds for every numbering \<open>tag\<close>.
\<close>

fun exampleTag :: "TR_ExternalRelocationTargetKind \<Rightarrow> nat" where
  "exampleTag TR_ValidateClassByName = 0"
| "exampleTag TR_ValidateProfiledClass = 1"
| "exampleTag TR_ValidateClassFromCP = 2"
| "exampleTag TR_ValidateDefiningClassFromCP = 3"
| "exampleTag TR_ValidateStaticClassFromCP = 4"
| "exampleTag TR_ValidateClassFromMethod = 5"
| "exampleTag TR_ValidateComponentClassFromArrayClass = 6"
| "exampleTag TR_ValidateArrayClassFromComponentClass = 7"
| "exampleTag TR_ValidateSuperClassFromClass = 8"
| "exampleTag TR_ValidateClassInstanceOfClass = 9"
| "exampleTag TR_ValidateSystemClassByName = 10"
| "exampleTag TR_ValidateClassFromITableIndexCP = 11"
| "exampleTag TR_ValidateDeclaringClassFromFieldOrStatic = 12"
| "exampleTag TR_ValidateClassClass = 13"
| "exampleTag TR_ValidateConcreteSubClassFromClass = 14"
| "exampleTag TR_ValidateClassChain = 15"
| "exampleTag TR_ValidateMethodFromClass = 16"
| "exampleTag TR_ValidateStaticMethodFromCP = 17"
| "exampleTag TR_ValidateSpecialMethodFromCP = 18"
| "exampleTag TR_ValidateVirtualMethodFromCP = 19"
| "exampleTag TR_ValidateVirtualMethodFromOffset = 20"
| "exampleTag TR_ValidateInterfaceMethodFromCP = 21"
| "exampleTag TR_ValidateMethodFromClassAndSig = 22"
| "exampleTag TR_ValidateStackWalkerMaySkipFramesRecord = 23"
| "exampleTag TR_ValidateClassInfoIsInitialized = 24"
| "exampleTag TR_ValidateMethodFromSingleImplementer = 25"
| "exampleTag TR_ValidateMethodFromSingleInterfaceImplementer = 26"
| "exampleTag TR_ValidateMethodFromSingleAbstractImplementer = 27"
| "exampleTag TR_ValidateImproperInterfaceMethodFromCP = 28"

section \<open>Properties\<close>

subsection \<open>The sort keys and the order within a kind\<close>

lemma ptrKey_inj: "ptrKey a = ptrKey b \<longleftrightarrow> a = b"
  by (simp add: ptrKey_def)

lemma u32Key_inj: "u32Key a = u32Key b \<longleftrightarrow> a = b"
  by (auto simp: u32Key_def intro: unsigned_word_eqI)

lemma i32Key_inj: "i32Key a = i32Key b \<longleftrightarrow> a = b"
  by (auto simp: i32Key_def intro: signed_word_eqI)

lemma boolKey_inj: "boolKey a = boolKey b \<longleftrightarrow> a = b"
  by (simp add: boolKey_def)

lemma ynmKey_inj: "ynmKey a = ynmKey b \<longleftrightarrow> a = b"
  by (cases a; cases b) simp_all

lemma lexLess_irrefl: "\<not> lexLess xs xs"
  by (induction xs) auto

lemma lexLess_total:
  "length xs = length ys \<Longrightarrow> xs \<noteq> ys \<Longrightarrow> lexLess xs ys \<noteq> lexLess ys xs"
  by (induction xs ys rule: list_induct2) auto

text \<open>Two records of one kind have as many keys, and the keys determine the record.\<close>

lemma fieldKeys_same_kind:
  "kind a = kind b \<Longrightarrow>
     length (fieldKeys a) = length (fieldKeys b) \<and> (fieldKeys a = fieldKeys b \<longrightarrow> a = b)"
  by (cases a; cases b)
    (simp_all add: ptrKey_inj u32Key_inj i32Key_inj boolKey_inj ynmKey_inj)

lemma withinKind_irrefl: "\<not> isLessThanWithinKind a a"
  by (simp add: isLessThanWithinKind_def lexLess_irrefl)

lemma withinKind_total:
  assumes "kind a = kind b" and "a \<noteq> b"
  shows "isLessThanWithinKind a b \<noteq> isLessThanWithinKind b a"
proof -
  from fieldKeys_same_kind [OF assms(1)] assms(2)
  have "length (fieldKeys a) = length (fieldKeys b)" and "fieldKeys a \<noteq> fieldKeys b"
    by auto
  then show ?thesis
    unfolding isLessThanWithinKind_def by (rule lexLess_total)
qed

lemma isLessThan_irrefl: "\<not> isLessThan tag a a"
  by (simp add: isLessThan_def withinKind_irrefl)

lemma isEqual_refl: "isEqual tag a a"
  by (simp add: isEqual_def isLessThan_irrefl)


subsection \<open>Already validated symbols\<close>

text \<open>
  C1. For every symbol \<open>s\<close>, also one with no assigned ID: while the counter of heuristic
  regions is greater than zero, \<open>isAlreadyValidated s\<close> is true; when the counter is
  zero, \<open>isAlreadyValidated s\<close> is true exactly when \<open>tryGetIDFromSymbol s\<close> returns an ID
  other than \<open>NO_ID\<close>.
\<close>

theorem isAlreadyValidated_cases:
  "(0 < heuristicRegion m \<longrightarrow> isAlreadyValidated m s) \<and>
   (heuristicRegion m = 0 \<longrightarrow> isAlreadyValidated m s = (tryGetIDFromSymbol m s \<noteq> NO_ID))"
  by (simp add: isAlreadyValidated_def inHeuristicRegion_def)

text \<open>
  Symbol 7 has no ID in a new manager: it is validated inside a region, not validated
  outside, and validated outside once it has the ID 1.
\<close>

theorem isAlreadyValidated_cases_witness:
  "isAlreadyValidated (enterHeuristicRegion newManager) 7 \<and>
   \<not> isAlreadyValidated newManager 7 \<and>
   isAlreadyValidated (newManager\<lparr>symbolToIdMap := [7 \<mapsto> 1]\<rparr>) 7"
proof -
  have a: "0 < heuristicRegion (enterHeuristicRegion newManager)"
    by (simp add: enterHeuristicRegion_def newManager_def)
  have b: "heuristicRegion newManager = 0"
    by (simp add: newManager_def)
  have c: "heuristicRegion (newManager\<lparr>symbolToIdMap := [7 \<mapsto> 1]\<rparr>) = 0"
    by (simp add: newManager_def)
  from isAlreadyValidated_cases [of "enterHeuristicRegion newManager" 7] a
    isAlreadyValidated_cases [of newManager 7] b
    isAlreadyValidated_cases [of "newManager\<lparr>symbolToIdMap := [7 \<mapsto> 1]\<rparr>" 7] c
  show ?thesis
    by (simp add: tryGetIDFromSymbol_def NO_ID_def newManager_def)
qed

subsection \<open>The order of the records\<close>

text \<open>
  C3. For two records \<open>a\<close> and \<open>b\<close> of the same kind whose field values differ, exactly
  one of \<open>isLessThan a b\<close> and \<open>isLessThan b a\<close> holds; both are false only when \<open>a\<close> and
  \<open>b\<close> have identical field values. (Two records of one kind are the same value exactly
  when all their fields agree.)
\<close>

theorem isLessThan_total_within_kind:
  assumes "kind a = kind b"
  shows "(a \<noteq> b \<longrightarrow> (isLessThan tag a b \<or> isLessThan tag b a) \<and>
                       \<not> (isLessThan tag a b \<and> isLessThan tag b a)) \<and>
         ((\<not> isLessThan tag a b \<and> \<not> isLessThan tag b a) = (a = b))"
proof -
  have eq: "isLessThan tag a b = isLessThanWithinKind a b"
    "isLessThan tag b a = isLessThanWithinKind b a"
    using assms by (simp_all add: isLessThan_def)
  show ?thesis
    using withinKind_total [OF assms] withinKind_irrefl [of a] by (auto simp: eq)
qed

text \<open>
  Two records that differ in a signed field only: the index \<open>-1\<close> is below the index 0,
  and not the other way round.
\<close>

theorem isLessThan_total_within_kind_witness:
  "isLessThan exampleTag (ClassFromITableIndexCPRecord 1 2 (-1)) (ClassFromITableIndexCPRecord 1 2 0) \<and>
   \<not> isLessThan exampleTag (ClassFromITableIndexCPRecord 1 2 0) (ClassFromITableIndexCPRecord 1 2 (-1))"
proof -
  have k: "kind (ClassFromITableIndexCPRecord 1 2 (-1)) = kind (ClassFromITableIndexCPRecord 1 2 0)"
    by simp
  have ne: "ClassFromITableIndexCPRecord 1 2 (-1) \<noteq> ClassFromITableIndexCPRecord 1 2 0"
    by simp
  have lt: "isLessThan exampleTag (ClassFromITableIndexCPRecord 1 2 (-1)) (ClassFromITableIndexCPRecord 1 2 0)"
    by (simp add: isLessThan_def isLessThanWithinKind_def ptrKey_def i32Key_def)
  from isLessThan_total_within_kind [OF k, of exampleTag] ne lt show ?thesis
    by blast
qed

text \<open>
  C4. \<open>isLessThan a b\<close> holds if the kind tag of \<open>a\<close> is strictly smaller than that of
  \<open>b\<close>, is false if it is strictly larger, and otherwise is the kind-specific
  comparison \<open>isLessThanWithinKind a b\<close>; and \<open>isEqual a b\<close> holds exactly when neither
  \<open>isLessThan a b\<close> nor \<open>isLessThan b a\<close> holds.
\<close>

theorem isLessThan_isEqual_spec:
  "(tag (kind a) < tag (kind b) \<longrightarrow> isLessThan tag a b) \<and>
   (tag (kind b) < tag (kind a) \<longrightarrow> \<not> isLessThan tag a b) \<and>
   (tag (kind a) = tag (kind b) \<longrightarrow> isLessThan tag a b = isLessThanWithinKind a b) \<and>
   isEqual tag a b = (\<not> isLessThan tag a b \<and> \<not> isLessThan tag b a)"
  by (simp add: isLessThan_def isEqual_def)

theorem isLessThan_isEqual_spec_witness:
  "isLessThan exampleTag (ClassByNameRecord 9 9) (ProfiledClassRecord 1 1) \<and>
   \<not> isLessThan exampleTag (ProfiledClassRecord 1 1) (ClassByNameRecord 9 9) \<and>
   isLessThan exampleTag (ClassByNameRecord 1 2) (ClassByNameRecord 1 3) \<and>
   isEqual exampleTag (ClassByNameRecord 1 2) (ClassByNameRecord 1 2) \<and>
   \<not> isEqual exampleTag (ClassByNameRecord 1 2) (ClassByNameRecord 1 3)"
proof -
  have a: "exampleTag (kind (ClassByNameRecord 9 9)) < exampleTag (kind (ProfiledClassRecord 1 1))"
    by simp
  have b: "exampleTag (kind (ClassByNameRecord 1 2)) = exampleTag (kind (ClassByNameRecord 1 3))"
    by simp
  have c: "exampleTag (kind (ClassByNameRecord 1 2)) = exampleTag (kind (ClassByNameRecord 1 2))"
    by simp
  from isLessThan_isEqual_spec [of exampleTag "ClassByNameRecord 9 9" "ProfiledClassRecord 1 1"]
    isLessThan_isEqual_spec [of exampleTag "ProfiledClassRecord 1 1" "ClassByNameRecord 9 9"]
    isLessThan_isEqual_spec [of exampleTag "ClassByNameRecord 1 2" "ClassByNameRecord 1 3"]
    isLessThan_isEqual_spec [of exampleTag "ClassByNameRecord 1 3" "ClassByNameRecord 1 2"]
    isLessThan_isEqual_spec [of exampleTag "ClassByNameRecord 1 2" "ClassByNameRecord 1 2"]
    a b c
  show ?thesis
    by (simp add: isLessThanWithinKind_def ptrKey_def)
qed

subsection \<open>Class validation records\<close>

text \<open>
  C9, as amended. A record marked as a class validation record is about a type symbol,
  and no record about a procedure symbol is marked. Not every record about a type is
  marked: \<open>isClassValidationRecord\<close> is true exactly for the records about a type
  symbol other than the three kinds class-instance-of-class, class-chain and
  class-info-is-initialized, which derive from \<open>SymbolValidationRecord\<close> directly.
\<close>

theorem isClassValidationRecord_spec:
  "(isClassValidationRecord r \<longrightarrow> subjectType r = typeClass) \<and>
   (subjectType r = typeMethod \<longrightarrow> \<not> isClassValidationRecord r) \<and>
   isClassValidationRecord r =
     (subjectType r = typeClass \<and>
      kind r \<notin> {TR_ValidateClassInstanceOfClass, TR_ValidateClassChain,
                TR_ValidateClassInfoIsInitialized})"
  by (cases r) simp_all

theorem isClassValidationRecord_spec_witness:
  "isClassValidationRecord (SuperClassFromClassRecord 1 2) \<and>
   subjectType (SuperClassFromClassRecord 1 2) = typeClass \<and>
   \<not> isClassValidationRecord (MethodFromClassRecord 3 1 0) \<and>
   \<not> isClassValidationRecord (ClassChainRecord 1 4)"
  using isClassValidationRecord_spec [of "SuperClassFromClassRecord 1 2"]
    isClassValidationRecord_spec [of "MethodFromClassRecord 3 1 0"]
    isClassValidationRecord_spec [of "ClassChainRecord 1 4"]
  by simp

text \<open>
  C9 as stated fails: a class-instance-of-class record is about a type symbol (its
  subject is the type \<open>classOne\<close>) and is not marked as a class validation record.
\<close>

theorem isClassValidationRecord_counterexample:
  "subjectType (ClassInstanceOfClassRecord 1 2 True True True) = typeClass \<and>
   isClassValidationRecord (ClassInstanceOfClassRecord 1 2 True True True) = False"
  by simp

subsection \<open>Abandoned add operations\<close>



subsection \<open>Lookups by ID\<close>

text \<open>
  C8. For a lookup by ID during load (\<open>getSymbolFromID\<close>, \<open>getClassFromID\<close>,
  \<open>getMethodFromID\<close>): if the ID has no bound symbol of the requested category, the
  call with presence \<open>SymRequired\<close> signals failure, and the call with presence
  \<open>SymOptional\<close> returns the empty result \<open>NULL\<close> and signals nothing.
\<close>

theorem lookup_absent:
  assumes "\<not> hasBoundSymbol m i ty"
  shows "getSymbolFromID m i ty SymRequired = Inl AOTSymbolValidationManagerFailure \<and>
         getSymbolFromID m i ty SymOptional = Inr NULL \<and>
         (ty = typeClass \<longrightarrow>
            getClassFromID m i SymRequired = Inl AOTSymbolValidationManagerFailure \<and>
            getClassFromID m i SymOptional = Inr NULL) \<and>
         (ty = typeMethod \<longrightarrow>
            getMethodFromID m i SymRequired = Inl AOTSymbolValidationManagerFailure \<and>
            getMethodFromID m i SymOptional = Inr NULL)"
  using assms by (auto simp: getSymbolFromID_def getClassFromID_def getMethodFromID_def)

text \<open>
  A table whose entry 1 is the type symbol 40: the ID 1 has no procedure symbol, and
  the ID 2 has no symbol at all.
\<close>

theorem lookup_absent_witness:
  "getMethodFromID
     (newManager\<lparr>idToSymbolTable :=
        [\<lparr>symbol = NULL, type = typeClass, hasValue = False\<rparr>,
         \<lparr>symbol = 40, type = typeClass, hasValue = True\<rparr>]\<rparr>) 1 SymRequired
     = Inl AOTSymbolValidationManagerFailure \<and>
   getMethodFromID
     (newManager\<lparr>idToSymbolTable :=
        [\<lparr>symbol = NULL, type = typeClass, hasValue = False\<rparr>,
         \<lparr>symbol = 40, type = typeClass, hasValue = True\<rparr>]\<rparr>) 1 SymOptional
     = Inr NULL \<and>
   getClassFromID
     (newManager\<lparr>idToSymbolTable :=
        [\<lparr>symbol = NULL, type = typeClass, hasValue = False\<rparr>,
         \<lparr>symbol = 40, type = typeClass, hasValue = True\<rparr>]\<rparr>) 2 SymOptional
     = Inr NULL"
proof -
  let ?m = "newManager\<lparr>idToSymbolTable :=
        [\<lparr>symbol = NULL, type = typeClass, hasValue = False\<rparr>,
         \<lparr>symbol = 40, type = typeClass, hasValue = True\<rparr>]\<rparr>"
  have a: "\<not> hasBoundSymbol ?m 1 typeMethod"
    by (simp add: hasBoundSymbol_def)
  have b: "\<not> hasBoundSymbol ?m 2 typeClass"
    by (simp add: hasBoundSymbol_def)
  from lookup_absent [OF a] lookup_absent [OF b] show ?thesis
    by simp
qed

subsection \<open>Leaving a heuristic region that was never entered\<close>

text \<open>
  C10. The counter of heuristic regions is a 32-bit unsigned integer that
  \<open>exitHeuristicRegion\<close> decrements unconditionally: for a manager whose counter is
  zero, one call wraps the counter to 4294967295, after which \<open>inHeuristicRegion\<close> is
  true, every symbol is reported as already validated, and an add operation leaves the
  manager as it is (no new record, no new ID).
\<close>

theorem exit_wraps:
  assumes "heuristicRegion m = 0"
  shows "heuristicRegion (exitHeuristicRegion m) = 4294967295 \<and>
         unat (heuristicRegion (exitHeuristicRegion m)) = 2 ^ 32 - 1 \<and>
         inHeuristicRegion (exitHeuristicRegion m) \<and>
         isAlreadyValidated (exitHeuristicRegion m) s \<and>
         map_sum id snd (addVanillaRecord tag (exitHeuristicRegion m) s r)
           = Inr (exitHeuristicRegion m)"
proof -
  have e: "heuristicRegion (exitHeuristicRegion m) = 4294967295"
    using assms by (simp add: exitHeuristicRegion_def)
  have u: "unat (heuristicRegion (exitHeuristicRegion m)) = 2 ^ 32 - 1"
    by (simp add: e)
  have i: "inHeuristicRegion (exitHeuristicRegion m)"
    by (simp add: inHeuristicRegion_def e)
  show ?thesis
    using e u i
    by (simp add: isAlreadyValidated_def addVanillaRecord_def shouldNotDefineSymbol_def)
qed

theorem exit_wraps_witness:
  "heuristicRegion (exitHeuristicRegion newManager) = 4294967295 \<and>
   inHeuristicRegion (exitHeuristicRegion newManager) \<and>
   isAlreadyValidated (exitHeuristicRegion newManager) 7 \<and>
   map_sum id snd
     (addVanillaRecord exampleTag (exitHeuristicRegion newManager) 7 (SystemClassByNameRecord 7))
     = Inr (exitHeuristicRegion newManager)"
proof -
  have z: "heuristicRegion newManager = 0" by (simp add: newManager_def)
  from exit_wraps [OF z, of 7 exampleTag "SystemClassByNameRecord 7"] show ?thesis
    by simp
qed

subsection \<open>Symbol IDs\<close>

lemma unat_id_bound: "unat (w :: 16 word) \<le> 65535"
  using unsigned_less [of w, where ?'a = nat] by simp

lemma unat_id_limit: "(w :: 16 word) \<noteq> 0xFFFF \<Longrightarrow> unat w < 65535"
proof -
  assume "w \<noteq> 0xFFFF"
  then have "unat w \<noteq> unat (0xFFFF :: 16 word)"
    by (simp only: word_unat_eq_iff not_False_eq_True)
  then have "unat w \<noteq> 65535" by simp
  with unat_id_bound [of w] show ?thesis by simp
qed

lemma unat_id_succ: "(w :: 16 word) \<noteq> 0xFFFF \<Longrightarrow> unat (w + 1) = Suc (unat w)"
  using unat_id_limit [of w] by (simp add: unat_word_ariths)

lemma getNewSymbolID_Inr:
  assumes "getNewSymbolID m = Inr (i, m1)"
  shows "i = symbolID m" and "unat (symbolID m1) = Suc (unat (symbolID m))"
    and "unat (symbolID m) < 65535"
  using assms
  by (auto simp: getNewSymbolID_def unat_id_succ unat_id_limit split: if_splits)

lemma getNewSymbolID_returns:
  "unat (symbolID m) < 65535 \<Longrightarrow> \<exists>m1. getNewSymbolID m = Inr (symbolID m, m1)"
  by (auto simp: getNewSymbolID_def)

text \<open>The IDs of \<open>n\<close> successive calls are the \<open>n\<close> values from the counter upwards.\<close>

lemma getNewSymbolIDs_Inr:
  "getNewSymbolIDs n m = Inr (ids, m') \<Longrightarrow>
     map unat ids = [unat (symbolID m) ..< unat (symbolID m) + n] \<and>
     unat (symbolID m') = unat (symbolID m) + n \<and>
     unat (symbolID m) + n \<le> 65535"
proof (induction n arbitrary: m ids)
  case 0
  then show ?case using unat_id_bound [of "symbolID m"] by simp
next
  case (Suc n)
  from Suc.prems obtain i m1 ids1 where
    g: "getNewSymbolID m = Inr (i, m1)" and
    r: "getNewSymbolIDs n m1 = Inr (ids1, m')" and
    ids: "ids = i # ids1"
    by (auto split: sum.splits)
  from getNewSymbolID_Inr [OF g] Suc.IH [OF r] ids
  show ?case by (simp add: upt_conv_Cons)
qed

lemma getNewSymbolIDs_returns:
  "unat (symbolID m) + n \<le> 65535 \<Longrightarrow> \<exists>ids m'. getNewSymbolIDs n m = Inr (ids, m')"
proof (induction n arbitrary: m)
  case 0
  then show ?case by simp
next
  case (Suc n)
  then have lt: "unat (symbolID m) < 65535" by simp
  from getNewSymbolID_returns [OF lt] obtain m1 where
    g: "getNewSymbolID m = Inr (symbolID m, m1)" by blast
  from getNewSymbolID_Inr(2) [OF g] Suc.prems
  have "unat (symbolID m1) + n \<le> 65535" by simp
  from Suc.IH [OF this] g show ?case by auto
qed

lemma ids_sorted:
  assumes "map unat (ids :: 16 word list) = [k ..< k + n]"
  shows "sorted_wrt (<) ids" and "\<forall>i \<in> set ids. k \<le> unat i"
proof -
  have "sorted_wrt (<) (map unat ids)" by (simp add: assms)
  moreover have "(\<lambda>x y. unat x < unat y) = ((<) :: 16 word \<Rightarrow> 16 word \<Rightarrow> bool)"
    by (intro ext) (simp add: word_less_nat_alt)
  ultimately show "sorted_wrt (<) ids"
    by (simp add: sorted_wrt_map)
  have "set (map unat ids) = {k ..< k + n}" by (simp add: assms)
  then show "\<forall>i \<in> set ids. k \<le> unat i" by auto
qed

text \<open>
  C6. Symbol IDs are 16-bit unsigned integers. \<open>NO_ID\<close> is 0 and is never assigned;
  the first assigned ID is \<open>FIRST_ID\<close>, which is 1; and the calls of \<open>getNewSymbolID\<close> on
  one manager return strictly increasing values, none of them reused. A new manager
  serves 65534 calls. The bound \<open>FIRST_ID \<le> symbolID m\<close> holds for a new manager and is
  kept by every call.
\<close>

theorem symbolIDs_increase:
  "NO_ID = 0 \<and> FIRST_ID = 1 \<and> symbolID newManager = FIRST_ID \<and>
   (n \<le> 65534 \<longrightarrow> (\<exists>ids m'. getNewSymbolIDs n newManager = Inr (ids, m'))) \<and>
   (FIRST_ID \<le> symbolID m \<and> getNewSymbolIDs n m = Inr (ids, m') \<longrightarrow>
      sorted_wrt (<) ids \<and> NO_ID \<notin> set ids \<and> (\<forall>i \<in> set ids. symbolID m \<le> i) \<and>
      (ids \<noteq> [] \<longrightarrow> hd ids = symbolID m) \<and> FIRST_ID \<le> symbolID m')"
proof (intro conjI impI)
  show "NO_ID = 0" by (simp add: NO_ID_def)
  show "FIRST_ID = 1" by (simp add: FIRST_ID_def)
  show "symbolID newManager = FIRST_ID" by (simp add: newManager_def)
next
  assume "n \<le> 65534"
  then have "unat (symbolID newManager) + n \<le> 65535"
    by (simp add: newManager_def FIRST_ID_def)
  then show "\<exists>ids m'. getNewSymbolIDs n newManager = Inr (ids, m')"
    by (rule getNewSymbolIDs_returns)
next
  assume a: "FIRST_ID \<le> symbolID m \<and> getNewSymbolIDs n m = Inr (ids, m')"
  then have one: "1 \<le> unat (symbolID m)"
    by (simp add: FIRST_ID_def word_le_nat_alt)
  from a getNewSymbolIDs_Inr [of n m ids m']
  have m: "map unat ids = [unat (symbolID m) ..< unat (symbolID m) + n]"
    and m': "unat (symbolID m') = unat (symbolID m) + n"
    by simp_all
  from ids_sorted [OF m] have s: "sorted_wrt (<) ids"
    and lb: "\<forall>i \<in> set ids. unat (symbolID m) \<le> unat i"
    by simp_all
  show "sorted_wrt (<) ids" by (rule s)
  show "\<forall>i \<in> set ids. symbolID m \<le> i"
    using lb by (simp add: word_le_nat_alt)
  show "NO_ID \<notin> set ids"
    using lb one by (auto simp: NO_ID_def)
  show "FIRST_ID \<le> symbolID m'"
    using one m' by (simp add: FIRST_ID_def word_le_nat_alt)
  show "hd ids = symbolID m" if "ids \<noteq> []"
  proof -
    from that obtain i rest where ids: "ids = i # rest" by (cases ids) auto
    from m have "length (map unat ids) = n" by simp
    with ids have "n \<noteq> 0" by auto
    with m ids have "unat i = unat (symbolID m)" by (simp add: upt_conv_Cons)
    then show ?thesis by (simp add: ids word_unat_eq_iff)
  qed
qed

text \<open>Three calls on a new manager return 1, 2 and 3 and leave the counter at 4.\<close>

theorem symbolIDs_increase_witness:
  "getNewSymbolIDs 3 newManager = Inr ([1, 2, 3], newManager\<lparr>symbolID := 4\<rparr>) \<and>
   sorted_wrt (<) [1, 2, 3 :: uint16_t] \<and> NO_ID \<notin> set [1, 2, 3]"
proof -
  have r: "getNewSymbolIDs 3 newManager = Inr ([1, 2, 3], newManager\<lparr>symbolID := 4\<rparr>)"
    by (simp add: numeral_3_eq_3 getNewSymbolID_def newManager_def FIRST_ID_def)
  have f: "FIRST_ID \<le> symbolID newManager"
    by (simp add: newManager_def)
  from symbolIDs_increase [of 3 newManager "[1, 2, 3]" "newManager\<lparr>symbolID := 4\<rparr>"] r f
  show ?thesis by simp
qed

subsection \<open>The record store\<close>

lemma setInsert_has_equal: "list_ex (\<lambda>e. isEqual tag e r) (setInsert tag r xs)"
  by (induction xs) (auto simp: isEqual_def isLessThan_irrefl)

lemma setInsert_superset: "set xs \<subseteq> set (setInsert tag r xs)"
  by (induction xs) auto

text \<open>What a successful \<open>appendNewRecord\<close> leaves behind.\<close>

lemma appendNewRecord_Inr:
  assumes "appendNewRecord tag m s r = Inr m1"
  shows "recordExists tag m1 r"
    and "heuristicRegion m1 = heuristicRegion m"
    and "symbolValidationRecords m1 = symbolValidationRecords m @ [r]"
    and "alreadyGeneratedRecords m1 = setInsert tag r (alreadyGeneratedRecords m)"
  using assms
  by (auto simp: appendNewRecord_def getNewSymbolID_def recordExists_def setInsert_has_equal
      split: if_splits sum.splits)

lemma appendNewRecord_keeps_id:
  assumes "appendNewRecord tag m s r = Inr m1" and "tryGetIDFromSymbol m x \<noteq> NO_ID"
  shows "tryGetIDFromSymbol m1 x = tryGetIDFromSymbol m x"
  using assms
  by (auto simp: appendNewRecord_def getNewSymbolID_def tryGetIDFromSymbol_def
      split: if_splits sum.splits option.splits)

lemma appendNewRecord_symbolID:
  assumes "appendNewRecord tag m s r = Inr m1"
  shows "unat (symbolID m1) \<le> Suc (unat (symbolID m))"
  using assms
  by (auto simp: appendNewRecord_def getNewSymbolID_def unat_id_succ
      split: if_splits sum.splits)

lemma appendNewRecord_returns:
  "tryGetIDFromSymbol m s \<noteq> NO_ID \<or> symbolID m \<noteq> 0xFFFF \<Longrightarrow>
     \<exists>m1. appendNewRecord tag m s r = Inr m1"
  by (auto simp: appendNewRecord_def getNewSymbolID_def)

lemma recordExists_mono:
  "set (alreadyGeneratedRecords m) \<subseteq> set (alreadyGeneratedRecords m1) \<Longrightarrow>
     recordExists tag m q \<Longrightarrow> recordExists tag m1 q"
  by (auto simp: recordExists_def list_ex_iff)

text \<open>The same for \<open>appendRecordIfNew\<close>, which changes nothing when the record exists.\<close>

lemma appendRecordIfNew_Inr:
  assumes "appendRecordIfNew tag m s r = Inr m1"
  shows "recordExists tag m1 r"
    and "heuristicRegion m1 = heuristicRegion m"
    and "recordExists tag m q \<Longrightarrow> recordExists tag m1 q"
    and "tryGetIDFromSymbol m x \<noteq> NO_ID \<Longrightarrow> tryGetIDFromSymbol m1 x = tryGetIDFromSymbol m x"
    and "unat (symbolID m1) \<le> Suc (unat (symbolID m))"
proof -
  consider (old) "recordExists tag m r" "m1 = m"
    | (new) "\<not> recordExists tag m r" "appendNewRecord tag m s r = Inr m1"
    using assms by (auto simp: appendRecordIfNew_def split: if_splits)
  note c = this
  show "recordExists tag m1 r"
    using c appendNewRecord_Inr(1) by cases auto
  show "heuristicRegion m1 = heuristicRegion m"
    using c appendNewRecord_Inr(2) by cases auto
  show "recordExists tag m1 q" if "recordExists tag m q"
    using c
  proof cases
    case old
    with that show ?thesis by simp
  next
    case new
    from appendNewRecord_Inr(4) [OF new(2)] setInsert_superset [of "alreadyGeneratedRecords m" tag r]
    have "set (alreadyGeneratedRecords m) \<subseteq> set (alreadyGeneratedRecords m1)" by simp
    from recordExists_mono [OF this that] show ?thesis .
  qed
  show "tryGetIDFromSymbol m1 x = tryGetIDFromSymbol m x" if "tryGetIDFromSymbol m x \<noteq> NO_ID"
    using c appendNewRecord_keeps_id [OF _ that] by cases auto
  show "unat (symbolID m1) \<le> Suc (unat (symbolID m))"
    using c appendNewRecord_symbolID by cases auto
qed

lemma appendRecordIfNew_returns:
  "unat (symbolID m) < 65535 \<Longrightarrow> \<exists>m1. appendRecordIfNew tag m s r = Inr m1"
proof -
  assume "unat (symbolID m) < 65535"
  then have "symbolID m \<noteq> 0xFFFF" by auto
  then have "tryGetIDFromSymbol m s \<noteq> NO_ID \<or> symbolID m \<noteq> 0xFFFF" by simp
  from appendNewRecord_returns [OF this, of tag r] show ?thesis
    by (auto simp: appendRecordIfNew_def)
qed

lemma isAlreadyValidated_kept:
  assumes "heuristicRegion m1 = heuristicRegion m"
    and "\<And>x. tryGetIDFromSymbol m x \<noteq> NO_ID \<Longrightarrow> tryGetIDFromSymbol m1 x = tryGetIDFromSymbol m x"
    and "isAlreadyValidated m x"
  shows "isAlreadyValidated m1 x"
  using assms by (auto simp: isAlreadyValidated_def inHeuristicRegion_def)

text \<open>A sequence of records: after it every record of the sequence exists.\<close>

lemma appendRecordsIfNew_Inr:
  "appendRecordsIfNew tag m ps = Inr m1 \<Longrightarrow>
     (\<forall>p \<in> set ps. recordExists tag m1 (snd p)) \<and>
     heuristicRegion m1 = heuristicRegion m \<and>
     (\<forall>q. recordExists tag m q \<longrightarrow> recordExists tag m1 q) \<and>
     (\<forall>x. tryGetIDFromSymbol m x \<noteq> NO_ID \<longrightarrow> tryGetIDFromSymbol m1 x = tryGetIDFromSymbol m x)"
proof (induction ps arbitrary: m)
  case Nil
  then show ?case by simp
next
  case (Cons p ps)
  obtain s r where p: "p = (s, r)" by (cases p)
  from Cons.prems p obtain m0 where
    a: "appendRecordIfNew tag m s r = Inr m0" and
    b: "appendRecordsIfNew tag m0 ps = Inr m1"
    by (auto split: sum.splits)
  note h = appendRecordIfNew_Inr [OF a]
  note ih = Cons.IH [OF b]
  show ?case
  proof (intro conjI ballI allI impI)
    fix p' assume "p' \<in> set (p # ps)"
    then show "recordExists tag m1 (snd p')"
      using ih h(1) p by auto
  next
    show "heuristicRegion m1 = heuristicRegion m" using ih h(2) by simp
  next
    fix q assume "recordExists tag m q"
    then show "recordExists tag m1 q" using ih h(3) by blast
  next
    fix x assume x: "tryGetIDFromSymbol m x \<noteq> NO_ID"
    from h(4) [OF x] x have "tryGetIDFromSymbol m0 x \<noteq> NO_ID" by simp
    with ih h(4) [OF x] show "tryGetIDFromSymbol m1 x = tryGetIDFromSymbol m x" by simp
  qed
qed

lemma appendRecordsIfNew_noop:
  "\<forall>p \<in> set ps. recordExists tag m (snd p) \<Longrightarrow> appendRecordsIfNew tag m ps = Inr m"
  by (induction ps) (auto simp: appendRecordIfNew_def)

lemma appendRecordsIfNew_returns:
  "unat (symbolID m) + length ps \<le> 65535 \<Longrightarrow> \<exists>m1. appendRecordsIfNew tag m ps = Inr m1"
proof (induction ps arbitrary: m)
  case Nil
  then show ?case by simp
next
  case (Cons p ps)
  obtain s r where p: "p = (s, r)" by (cases p)
  from Cons.prems have "unat (symbolID m) < 65535" by simp
  from appendRecordIfNew_returns [OF this, of tag s r] obtain m0 where
    a: "appendRecordIfNew tag m s r = Inr m0" by blast
  from appendRecordIfNew_Inr(5) [OF a] Cons.prems
  have "unat (symbolID m0) + length ps \<le> 65535" by simp
  from Cons.IH [OF this] a p show ?case by auto
qed

text \<open>
  C2, as amended. For every add operation and every argument tuple for which the first
  call returns, a second call with the same arguments leaves the manager, so the record
  list and the ordered record set, exactly as the first call left it, and reports what
  the first call reported: success exactly when the symbol is not \<open>NULL\<close> and the
  manager is outside a heuristic region. The first call returns when the operands are
  already validated and the IDs do not run out.
\<close>

theorem add_twice:
  "(\<forall>b m1. addXRecord tag m operands s r extra = Inr (b, m1) \<longrightarrow>
      addXRecord tag m1 operands s r extra = Inr (b, m1) \<and>
      b = (s \<noteq> NULL \<and> \<not> inHeuristicRegion m)) \<and>
   (list_all (isAlreadyValidated m) operands \<and>
    unat (symbolID m) + Suc (length extra) \<le> 65535 \<longrightarrow>
      (\<exists>b m1. addXRecord tag m operands s r extra = Inr (b, m1)))"
proof (intro conjI allI impI)
  fix b m1
  assume add: "addXRecord tag m operands s r extra = Inr (b, m1)"
  then have ops: "list_all (isAlreadyValidated m) operands"
    by (auto simp: addXRecord_def split: if_splits)
  show "b = (s \<noteq> NULL \<and> \<not> inHeuristicRegion m)"
    using add
    by (auto simp: addXRecord_def addVanillaRecord_def shouldNotDefineSymbol_def
        abandonRecord_def split: if_splits sum.splits)
  show "addXRecord tag m1 operands s r extra = Inr (b, m1)"
  proof (cases "shouldNotDefineSymbol m s")
    case True
    with add have "m1 = m" and "\<not> b"
      by (auto simp: addXRecord_def addVanillaRecord_def abandonRecord_def split: if_splits)
    with add show ?thesis by simp
  next
    case False
    with add ops obtain m0 where
      a: "appendRecordIfNew tag m s r = Inr m0" and
      e: "appendRecordsIfNew tag m0 extra = Inr m1" and b: "b"
      by (auto simp: addXRecord_def addVanillaRecord_def split: if_splits sum.splits)
    note h = appendRecordIfNew_Inr [OF a]
    note g = appendRecordsIfNew_Inr [OF e]
    have region: "heuristicRegion m1 = heuristicRegion m"
      using h(2) g by simp
    have ids: "tryGetIDFromSymbol m1 x = tryGetIDFromSymbol m x"
      if "tryGetIDFromSymbol m x \<noteq> NO_ID" for x
    proof -
      from h(4) [OF that] that have "tryGetIDFromSymbol m0 x \<noteq> NO_ID" by simp
      with g h(4) [OF that] show ?thesis by simp
    qed
    have ops1: "list_all (isAlreadyValidated m1) operands"
      using ops isAlreadyValidated_kept [OF region ids]
      by (auto simp: list_all_iff)
    have ns1: "\<not> shouldNotDefineSymbol m1 s"
      using False region by (simp add: shouldNotDefineSymbol_def inHeuristicRegion_def)
    have own: "recordExists tag m1 r" using h(1) g by blast
    have rest: "\<forall>p \<in> set extra. recordExists tag m1 (snd p)" using g by blast
    from own ns1 have "addVanillaRecord tag m1 s r = Inr (True, m1)"
      by (simp add: addVanillaRecord_def appendRecordIfNew_def)
    with ops1 appendRecordsIfNew_noop [OF rest] b show ?thesis
      by (simp add: addXRecord_def)
  qed
next
  assume h: "list_all (isAlreadyValidated m) operands \<and>
    unat (symbolID m) + Suc (length extra) \<le> 65535"
  show "\<exists>b m1. addXRecord tag m operands s r extra = Inr (b, m1)"
  proof (cases "shouldNotDefineSymbol m s")
    case True
    with h show ?thesis
      by (auto simp: addXRecord_def addVanillaRecord_def abandonRecord_def)
  next
    case False
    from h have "unat (symbolID m) < 65535" by simp
    from appendRecordIfNew_returns [OF this, of tag s r] obtain m0 where
      a: "appendRecordIfNew tag m s r = Inr m0" by blast
    from appendRecordIfNew_Inr(5) [OF a] h
    have "unat (symbolID m0) + length extra \<le> 65535" by simp
    from appendRecordsIfNew_returns [OF this, of tag] obtain m1 where
      "appendRecordsIfNew tag m0 extra = Inr m1" by blast
    with a h False show ?thesis
      by (auto simp: addXRecord_def addVanillaRecord_def)
  qed
qed

text \<open>
  A class-by-name record for the type 5, found by the beholder 6 that has the ID 1, the
  type having two array dimensions above it (the array types 105 and 205): the first
  call stores the record and the two array records and gives three IDs, the second
  call changes nothing, both return true.
\<close>

theorem add_twice_witness:
  "addXRecord exampleTag (newManager\<lparr>symbolID := 2, symbolToIdMap := [6 \<mapsto> 1]\<rparr>) [6] 5
       (ClassByNameRecord 5 6) (arrayRecords (\<lambda>c. c + 100) 5 (Suc (Suc 0)))
     = Inr (True, newManager\<lparr>symbolID := 5,
              symbolValidationRecords :=
                [ClassByNameRecord 5 6, ArrayClassFromComponentClassRecord 105 5,
                 ArrayClassFromComponentClassRecord 205 105],
              alreadyGeneratedRecords :=
                [ClassByNameRecord 5 6, ArrayClassFromComponentClassRecord 105 5,
                 ArrayClassFromComponentClassRecord 205 105],
              symbolToIdMap := [6 \<mapsto> 1, 5 \<mapsto> 2, 105 \<mapsto> 3, 205 \<mapsto> 4]\<rparr>) \<and>
   addXRecord exampleTag
       (newManager\<lparr>symbolID := 5,
              symbolValidationRecords :=
                [ClassByNameRecord 5 6, ArrayClassFromComponentClassRecord 105 5,
                 ArrayClassFromComponentClassRecord 205 105],
              alreadyGeneratedRecords :=
                [ClassByNameRecord 5 6, ArrayClassFromComponentClassRecord 105 5,
                 ArrayClassFromComponentClassRecord 205 105],
              symbolToIdMap := [6 \<mapsto> 1, 5 \<mapsto> 2, 105 \<mapsto> 3, 205 \<mapsto> 4]\<rparr>) [6] 5
       (ClassByNameRecord 5 6) (arrayRecords (\<lambda>c. c + 100) 5 (Suc (Suc 0)))
     = Inr (True, newManager\<lparr>symbolID := 5,
              symbolValidationRecords :=
                [ClassByNameRecord 5 6, ArrayClassFromComponentClassRecord 105 5,
                 ArrayClassFromComponentClassRecord 205 105],
              alreadyGeneratedRecords :=
                [ClassByNameRecord 5 6, ArrayClassFromComponentClassRecord 105 5,
                 ArrayClassFromComponentClassRecord 205 105],
              symbolToIdMap := [6 \<mapsto> 1, 5 \<mapsto> 2, 105 \<mapsto> 3, 205 \<mapsto> 4]\<rparr>)"
proof -
  have first:
    "addXRecord exampleTag (newManager\<lparr>symbolID := 2, symbolToIdMap := [6 \<mapsto> 1]\<rparr>) [6] 5
       (ClassByNameRecord 5 6) (arrayRecords (\<lambda>c. c + 100) 5 (Suc (Suc 0)))
     = Inr (True, newManager\<lparr>symbolID := 5,
              symbolValidationRecords :=
                [ClassByNameRecord 5 6, ArrayClassFromComponentClassRecord 105 5,
                 ArrayClassFromComponentClassRecord 205 105],
              alreadyGeneratedRecords :=
                [ClassByNameRecord 5 6, ArrayClassFromComponentClassRecord 105 5,
                 ArrayClassFromComponentClassRecord 205 105],
              symbolToIdMap := [6 \<mapsto> 1, 5 \<mapsto> 2, 105 \<mapsto> 3, 205 \<mapsto> 4]\<rparr>)"
    by (simp add: addXRecord_def isAlreadyValidated_def addVanillaRecord_def
        shouldNotDefineSymbol_def NULL_def inHeuristicRegion_def newManager_def
        appendRecordIfNew_def recordExists_def appendNewRecord_def tryGetIDFromSymbol_def
        NO_ID_def FIRST_ID_def getNewSymbolID_def isEqual_def isLessThan_def
        isLessThanWithinKind_def ptrKey_def)
  from add_twice [of exampleTag "newManager\<lparr>symbolID := 2, symbolToIdMap := [6 \<mapsto> 1]\<rparr>"
      "[6]" 5 "ClassByNameRecord 5 6" "arrayRecords (\<lambda>c. c + 100) 5 (Suc (Suc 0))"] first
  show ?thesis by blast
qed

text \<open>
  C2 as stated fails: not every argument tuple reports success. The add of a
  system-class-by-name record, which has no operand, for the symbol \<open>NULL\<close> on a new
  manager, outside any heuristic region, returns false.
\<close>

theorem add_twice_counterexample:
  "map_sum id fst (addXRecord exampleTag newManager [] NULL (SystemClassByNameRecord NULL) [])
     = Inr False"
  by (simp add: addXRecord_def addVanillaRecord_def shouldNotDefineSymbol_def abandonRecord_def)

subsection \<open>Class-instance-of-class records\<close>






end
